theory Spec2Isabelle
  imports Complex_Main
begin

section \<open>Crossy Road: the simulation core of crossyRoad.py\<close>

text \<open>
  The embedding follows \<^verbatim>\<open>src/crossyRoad.py\<close> method by method. Python's numbers
  (ints and floats mixed freely) are embedded in \<^typ>\<open>int\<close> where the code only ever holds
  an int (grid coordinates, score, timers) and in \<^typ>\<open>real\<close> for positions and speeds;
  float rounding is not modelled. Mutation of \<^verbatim>\<open>self\<close> is explicit state passing.
  The pygame collaborators (window, clock, fonts, drawing) carry no state of the
  simulation and are left out.
\<close>

subsection \<open>Constants\<close>

type_synonym color = "nat \<times> nat \<times> nat"

definition WHITE :: color where "WHITE = (255, 255, 255)"
definition GRASS_GREEN :: color where "GRASS_GREEN = (50, 205, 50)"
definition ROAD_GRAY :: color where "ROAD_GRAY = (80, 80, 80)"
definition WATER_BLUE :: color where "WATER_BLUE = (30, 144, 255)"
definition RED :: color where "RED = (255, 0, 0)"
definition YELLOW :: color where "YELLOW = (255, 255, 0)"
definition PURPLE :: color where "PURPLE = (128, 0, 128)"
definition ORANGE :: color where "ORANGE = (255, 165, 0)"

definition SCREEN_WIDTH :: int where "SCREEN_WIDTH = 800"
definition SCREEN_HEIGHT :: int where "SCREEN_HEIGHT = 600"
definition GRID_SIZE :: int where "GRID_SIZE = 50"
definition PLAYER_SIZE :: int where "PLAYER_SIZE = 40"
definition VEHICLE_MIN_SPEED :: real where "VEHICLE_MIN_SPEED = 2"
definition VEHICLE_MAX_SPEED :: real where "VEHICLE_MAX_SPEED = 6"
definition LOG_MIN_SPEED :: real where "LOG_MIN_SPEED = 1"
definition LOG_MAX_SPEED :: real where "LOG_MAX_SPEED = 3"

lemmas game_consts =
  SCREEN_WIDTH_def SCREEN_HEIGHT_def GRID_SIZE_def PLAYER_SIZE_def
  VEHICLE_MIN_SPEED_def VEHICLE_MAX_SPEED_def LOG_MIN_SPEED_def LOG_MAX_SPEED_def

subsection \<open>The random module\<close>

text \<open>
  The source of randomness is a tape of the values that successive calls of
  \<^verbatim>\<open>random.random()\<close> return, each in \<open>[0, 1)\<close>. Every call of the library
  (\<^verbatim>\<open>uniform\<close>, \<^verbatim>\<open>randint\<close>, \<^verbatim>\<open>choice\<close>, \<^verbatim>\<open>choices\<close>) reads one cell and
  hands the rest of the tape on. \<^verbatim>\<open>choices\<close> is the library's algorithm: the running sums of
  the weights, and a right bisection of \<open>r * total\<close> in all of them but the last. On a
  valid tape (every cell in \<open>[0, 1)\<close>) the indices that \<open>choice\<close> and \<open>choices\<close> compute lie
  within the lists the source passes, which are never empty.
\<close>

type_synonym rng = "nat \<Rightarrow> real"

definition validTape :: "rng \<Rightarrow> bool" where
  "validTape t = (\<forall>n. 0 \<le> t n \<and> t n < 1)"

definition random :: "rng \<Rightarrow> real \<times> rng" where
  "random t = (t 0, \<lambda>n. t (Suc n))"

definition uniform :: "real \<Rightarrow> real \<Rightarrow> rng \<Rightarrow> real \<times> rng" where
  "uniform a b t = (case random t of (r, t') \<Rightarrow> (a + (b - a) * r, t'))"

definition randint :: "int \<Rightarrow> int \<Rightarrow> rng \<Rightarrow> int \<times> rng" where
  "randint a b t = (case random t of (r, t') \<Rightarrow> (a + \<lfloor>r * real_of_int (b - a + 1)\<rfloor>, t'))"

definition choice :: "'a list \<Rightarrow> rng \<Rightarrow> 'a \<times> rng" where
  "choice xs t = (case random t of (r, t') \<Rightarrow> (xs ! nat \<lfloor>r * real (length xs)\<rfloor>, t'))"

fun accumulate :: "real \<Rightarrow> real list \<Rightarrow> real list" where
  "accumulate acc [] = []"
| "accumulate acc (w # ws) = (acc + w) # accumulate (acc + w) ws"

fun bisect :: "real list \<Rightarrow> real \<Rightarrow> nat" where
  "bisect [] v = 0"
| "bisect (c # cs) v = (if v < c then 0 else Suc (bisect cs v))"

definition choices :: "'a list \<Rightarrow> real list \<Rightarrow> rng \<Rightarrow> 'a \<times> rng" where
  "choices population weights t =
     (case random t of (r, t') \<Rightarrow>
        (let cum_weights = accumulate 0 weights; total = last cum_weights
         in (population ! bisect (butlast cum_weights) (r * total), t')))"

subsection \<open>Player\<close>

record player =
  px :: real
  py :: real
  gridX :: int
  gridY :: int
  targetX :: real
  targetY :: real
  psize :: int
  pcolor :: color
  pspeed :: int
  moving :: bool
  dead :: bool
  moveCooldown :: int

definition Player :: "int \<Rightarrow> int \<Rightarrow> player" where
  "Player x0 y0 =
     \<lparr> px = real_of_int x0, py = real_of_int y0,
       gridX = x0 div GRID_SIZE, gridY = y0 div GRID_SIZE,
       targetX = real_of_int x0, targetY = real_of_int y0,
       psize = PLAYER_SIZE, pcolor = YELLOW, pspeed = 10,
       moving = False, dead = False, moveCooldown = 0 \<rparr>"

definition Player_move :: "int \<Rightarrow> int \<Rightarrow> player \<Rightarrow> player" where
  "Player_move dx dy p =
     (if moving p \<or> dead p \<or> moveCooldown p > 0 then p
      else
        let gx = gridX p + dx;
            gy = gridY p + dy;
            tx = gx * GRID_SIZE + GRID_SIZE div 2;
            ty = gy * GRID_SIZE + GRID_SIZE div 2
        in p\<lparr> gridX := max 0 (min ((SCREEN_WIDTH div GRID_SIZE) - 1) gx),
               gridY := gy,
               targetX := real_of_int (max (GRID_SIZE div 2) (min (SCREEN_WIDTH - GRID_SIZE div 2) tx)),
               targetY := real_of_int ty,
               moving := True,
               moveCooldown := 5 \<rparr>)"

definition Player_update :: "player \<Rightarrow> player" where
  "Player_update p =
     (let p1 = (if moveCooldown p > 0 then p\<lparr> moveCooldown := moveCooldown p - 1 \<rparr> else p)
      in if moving p1 then
           (let dx = targetX p1 - px p1; dy = targetY p1 - py p1
            in if \<bar>dx\<bar> < 2 \<and> \<bar>dy\<bar> < 2
               then p1\<lparr> px := targetX p1, py := targetY p1, moving := False \<rparr>
               else p1\<lparr> px := px p1 + dx * (3 / 10), py := py p1 + dy * (3 / 10) \<rparr>)
         else p1)"

definition Player_die :: "player \<Rightarrow> player" where
  "Player_die p = p\<lparr> dead := True \<rparr>"

subsection \<open>Obstacles and particles\<close>

text \<open>
  \<^verbatim>\<open>Vehicle\<close> and \<^verbatim>\<open>Log\<close> have the same fields and the same \<^verbatim>\<open>update\<close>; they differ in
  the width range, the height and the colour that their constructors choose.
\<close>

record obstacle =
  ox :: real
  oy :: real
  ospeed :: real
  owidth :: real
  oheight :: real
  ocolor :: color

definition Vehicle :: "real \<Rightarrow> real \<Rightarrow> real \<Rightarrow> rng \<Rightarrow> obstacle \<times> rng" where
  "Vehicle x0 y0 s t =
     (case randint 60 100 t of (w, t1) \<Rightarrow>
      case choice [RED, ORANGE, PURPLE, WHITE, YELLOW] t1 of (c, t2) \<Rightarrow>
        (\<lparr> ox = x0, oy = y0, ospeed = s, owidth = real_of_int w, oheight = 30, ocolor = c \<rparr>, t2))"

definition Log :: "real \<Rightarrow> real \<Rightarrow> real \<Rightarrow> rng \<Rightarrow> obstacle \<times> rng" where
  "Log x0 y0 s t =
     (case randint 100 180 t of (w, t1) \<Rightarrow>
        (\<lparr> ox = x0, oy = y0, ospeed = s, owidth = real_of_int w, oheight = 35,
           ocolor = (139, 69, 19) \<rparr>, t1))"

definition Obstacle_update :: "obstacle \<Rightarrow> obstacle" where
  "Obstacle_update v = v\<lparr> ox := ox v + ospeed v \<rparr>"

record particle =
  ptx :: real
  pty :: real
  vx :: real
  vy :: real
  ptcolor :: color
  lifetime :: int
  ptsize :: int

definition Particle :: "real \<Rightarrow> real \<Rightarrow> color \<Rightarrow> rng \<Rightarrow> particle \<times> rng" where
  "Particle x0 y0 c t =
     (case uniform (-5) 5 t of (a, t1) \<Rightarrow>
      case uniform (-8) (-2) t1 of (b, t2) \<Rightarrow>
      case randint 3 8 t2 of (s, t3) \<Rightarrow>
        (\<lparr> ptx = x0, pty = y0, vx = a, vy = b, ptcolor = c, lifetime = 30, ptsize = s \<rparr>, t3))"

definition Particle_update :: "particle \<Rightarrow> particle" where
  "Particle_update q =
     q\<lparr> ptx := ptx q + vx q, pty := pty q + vy q, vy := vy q + 1 / 2,
        lifetime := lifetime q - 1 \<rparr>"

subsection \<open>Lanes\<close>

text \<open>
  One record for the three lane classes. \<open>laneType\<close> is the string the base class stores.
  A grass lane has no \<^verbatim>\<open>direction\<close> and no \<^verbatim>\<open>difficultyMultiplier\<close> attribute, a road
  or water lane has no \<^verbatim>\<open>flowers\<close>; the record holds 0 and the empty list there, and no
  function of the model reads them.
\<close>

record flower =
  flowerX :: int
  flowerColor :: color

record lane =
  laneY :: real
  laneType :: string
  obstacles :: "obstacle list"
  spawnTimer :: int
  spawnInterval :: int
  laneColor :: color
  flowers :: "flower list"
  direction :: int
  laneDifficulty :: real

fun makeFlowers :: "nat \<Rightarrow> rng \<Rightarrow> flower list \<times> rng" where
  "makeFlowers 0 t = ([], t)"
| "makeFlowers (Suc k) t =
     (case randint 0 SCREEN_WIDTH t of (x0, t1) \<Rightarrow>
      case choice [YELLOW, WHITE, PURPLE] t1 of (c, t2) \<Rightarrow>
      case makeFlowers k t2 of (fs, t3) \<Rightarrow>
        (\<lparr> flowerX = x0, flowerColor = c \<rparr> # fs, t3))"

definition GrassLane :: "real \<Rightarrow> rng \<Rightarrow> lane \<times> rng" where
  "GrassLane y0 t =
     (case randint 0 3 t of (k, t1) \<Rightarrow>
      case makeFlowers (nat k) t1 of (fs, t2) \<Rightarrow>
        (\<lparr> laneY = y0, laneType = ''grass'', obstacles = [], spawnTimer = 0,
           spawnInterval = 60, laneColor = GRASS_GREEN, flowers = fs,
           direction = 0, laneDifficulty = 0 \<rparr>, t2))"

definition RoadLane :: "real \<Rightarrow> real \<Rightarrow> rng \<Rightarrow> lane \<times> rng" where
  "RoadLane y0 difficulty t =
     (case choice [-1, 1] t of (d, t1) \<Rightarrow>
      case randint 40 80 t1 of (k, t2) \<Rightarrow>
        (\<lparr> laneY = y0, laneType = ''road'', obstacles = [], spawnTimer = 0,
           spawnInterval = k, laneColor = ROAD_GRAY, flowers = [],
           direction = d, laneDifficulty = difficulty \<rparr>, t2))"

definition WaterLane :: "real \<Rightarrow> real \<Rightarrow> rng \<Rightarrow> lane \<times> rng" where
  "WaterLane y0 difficulty t =
     (case choice [-1, 1] t of (d, t1) \<Rightarrow>
      case randint 60 100 t1 of (k, t2) \<Rightarrow>
        (\<lparr> laneY = y0, laneType = ''water'', obstacles = [], spawnTimer = 0,
           spawnInterval = k, laneColor = WATER_BLUE, flowers = [],
           direction = d, laneDifficulty = difficulty \<rparr>, t2))"

definition RoadLane_update :: "lane \<Rightarrow> rng \<Rightarrow> lane \<times> rng" where
  "RoadLane_update l t =
     (let timer = spawnTimer l + 1;
          (l1, t1) =
            (if timer \<ge> spawnInterval l then
               (case uniform VEHICLE_MIN_SPEED VEHICLE_MAX_SPEED t of (u, ta) \<Rightarrow>
                case Vehicle (if direction l = 1 then -50 else real_of_int (SCREEN_WIDTH + 50))
                       (laneY l) (u * laneDifficulty l * real_of_int (direction l)) ta
                of (v, tb) \<Rightarrow> (l\<lparr> spawnTimer := 0, obstacles := obstacles l @ [v] \<rparr>, tb))
             else (l\<lparr> spawnTimer := timer \<rparr>, t))
      in (l1\<lparr> obstacles :=
               filter (\<lambda>v. \<not> (ox v < -100 \<or> ox v > real_of_int (SCREEN_WIDTH + 100)))
                 (map Obstacle_update (obstacles l1)) \<rparr>, t1))"

definition WaterLane_update :: "lane \<Rightarrow> rng \<Rightarrow> lane \<times> rng" where
  "WaterLane_update l t =
     (let timer = spawnTimer l + 1;
          (l1, t1) =
            (if timer \<ge> spawnInterval l then
               (case uniform LOG_MIN_SPEED LOG_MAX_SPEED t of (u, ta) \<Rightarrow>
                case Log (if direction l = 1 then -100 else real_of_int (SCREEN_WIDTH + 100))
                       (laneY l) (u * laneDifficulty l * real_of_int (direction l)) ta
                of (v, tb) \<Rightarrow> (l\<lparr> spawnTimer := 0, obstacles := obstacles l @ [v] \<rparr>, tb))
             else (l\<lparr> spawnTimer := timer \<rparr>, t))
      in (l1\<lparr> obstacles :=
               filter (\<lambda>v. \<not> (ox v < -200 \<or> ox v > real_of_int (SCREEN_WIDTH + 200)))
                 (map Obstacle_update (obstacles l1)) \<rparr>, t1))"

text \<open>Method dispatch on the lane's class; \<^verbatim>\<open>GrassLane\<close> inherits the empty \<^verbatim>\<open>Lane.update\<close>.\<close>

definition Lane_update :: "lane \<Rightarrow> rng \<Rightarrow> lane \<times> rng" where
  "Lane_update l t =
     (if laneType l = ''road'' then RoadLane_update l t
      else if laneType l = ''water'' then WaterLane_update l t
      else (l, t))"

fun updateLanes :: "lane list \<Rightarrow> rng \<Rightarrow> lane list \<times> rng" where
  "updateLanes [] t = ([], t)"
| "updateLanes (l # ls) t =
     (case Lane_update l t of (l', t1) \<Rightarrow>
      case updateLanes ls t1 of (ls', t2) \<Rightarrow> (l' # ls', t2))"

subsection \<open>The high-score file\<close>

text \<open>
  \<^verbatim>\<open>highscore.txt\<close> is part of the state: \<open>fileText\<close> is the text that opening and
  reading the file yields, or \<open>None\<close> when that raises (no file, or one that cannot be
  read); \<open>writable\<close> says whether opening it for writing and writing succeeds.

  \<open>str\<close> and \<open>pyInt\<close> are Python's \<^verbatim>\<open>str\<close> on an int and \<^verbatim>\<open>int\<close> on a string, in
  base 10: surrounding whitespace is skipped, one sign is allowed, and the digits may be
  grouped by single underscores. \<open>None\<close> is the \<^verbatim>\<open>ValueError\<close>. The text is a list of
  8-bit characters, the code points below 256. The whitespace that \<^verbatim>\<open>int\<close> skips there is
  tab, line feed, vertical tab, form feed, carriage return and space (9 to 13 and 32) and,
  above the ASCII range, next line and no-break space (133 and 160); the separators 28 to
  31, which \<^verbatim>\<open>str.isspace\<close> accepts, are not skipped and make the text unparsable. The
  interpreter's limit on the number of digits of a conversion is not modelled.
\<close>

record disk =
  fileText :: "string option"
  writable :: bool

definition digitChar :: "nat \<Rightarrow> char" where
  "digitChar d = char_of (of_char CHR ''0'' + d)"

definition isDigit :: "char \<Rightarrow> bool" where
  "isDigit c = (of_char CHR ''0'' \<le> (of_char c :: nat) \<and> (of_char c :: nat) \<le> of_char CHR ''9'')"

definition digitVal :: "char \<Rightarrow> nat" where
  "digitVal c = of_char c - of_char CHR ''0''"

fun natStr :: "nat \<Rightarrow> string" where
  "natStr n = (if n < 10 then [digitChar n] else natStr (n div 10) @ [digitChar (n mod 10)])"

declare natStr.simps [simp del]

definition str :: "int \<Rightarrow> string" where
  "str i = (if i < 0 then CHR ''-'' # natStr (nat (- i)) else natStr (nat i))"

definition isSpace :: "char \<Rightarrow> bool" where
  "isSpace c = ((of_char c :: nat) \<in> {9, 10, 11, 12, 13, 32, 133, 160})"

definition strip :: "string \<Rightarrow> string" where
  "strip s = rev (dropWhile isSpace (rev (dropWhile isSpace s)))"

fun pyDigits :: "nat \<Rightarrow> string \<Rightarrow> nat option" where
  "pyDigits acc [] = Some acc"
| "pyDigits acc (c # cs) =
     (if isDigit c then pyDigits (10 * acc + digitVal c) cs
      else if c = CHR ''_'' \<and> (case cs of [] \<Rightarrow> False | d # _ \<Rightarrow> isDigit d) then pyDigits acc cs
      else None)"

definition pyNat :: "string \<Rightarrow> nat option" where
  "pyNat s = (case s of [] \<Rightarrow> None
              | c # cs \<Rightarrow> if isDigit c then pyDigits (digitVal c) cs else None)"

definition pyInt :: "string \<Rightarrow> int option" where
  "pyInt s =
     (case strip s of
        [] \<Rightarrow> None
      | c # cs \<Rightarrow>
          if c = CHR ''-'' then map_option (\<lambda>n. - int n) (pyNat cs)
          else if c = CHR ''+'' then map_option int (pyNat cs)
          else map_option int (pyNat (c # cs)))"

definition loadHighScore :: "disk \<Rightarrow> int" where
  "loadHighScore d =
     (case fileText d of
        None \<Rightarrow> 0
      | Some s \<Rightarrow> (case pyInt s of None \<Rightarrow> 0 | Some n \<Rightarrow> n))"

definition saveHighScore :: "int \<Rightarrow> disk \<Rightarrow> disk" where
  "saveHighScore hs d = (if writable d then d\<lparr> fileText := Some (str hs) \<rparr> else d)"

subsection \<open>Game\<close>

record game =
  startScreen :: bool
  playing :: bool
  gameOver :: bool
  score :: int
  highScore :: int
  bestProgress :: int
  cameraY :: real
  player :: player
  lanes :: "lane list"
  particles :: "particle list"
  difficultyMultiplier :: real
  deathAnimationTimer :: int
  flashTimer :: int
  tape :: rng
  hsFile :: disk

text \<open>The \<^verbatim>\<open>if/elif/else\<close> on the drawn lane type, written twice in the source.\<close>

definition newLane :: "string \<Rightarrow> real \<Rightarrow> real \<Rightarrow> rng \<Rightarrow> lane \<times> rng" where
  "newLane ty y0 difficulty t =
     (if ty = ''grass'' then GrassLane y0 t
      else if ty = ''road'' then RoadLane y0 difficulty t
      else WaterLane y0 difficulty t)"

fun initGrassLanes :: "nat list \<Rightarrow> lane list \<Rightarrow> rng \<Rightarrow> lane list \<times> rng" where
  "initGrassLanes [] ls t = (ls, t)"
| "initGrassLanes (i # rest) ls t =
     (case GrassLane (real_of_int (SCREEN_HEIGHT - int i * GRID_SIZE)) t of (l, t1) \<Rightarrow>
        initGrassLanes rest (ls @ [l]) t1)"

fun initRandomLanes :: "nat list \<Rightarrow> real \<Rightarrow> lane list \<Rightarrow> rng \<Rightarrow> lane list \<times> rng" where
  "initRandomLanes [] difficulty ls t = (ls, t)"
| "initRandomLanes (i # rest) difficulty ls t =
     (case choices [''grass'', ''road'', ''water''] [2, 3, 2] t of (ty, t1) \<Rightarrow>
      case newLane ty (real_of_int (SCREEN_HEIGHT - (int i + 3) * GRID_SIZE)) difficulty t1
      of (l, t2) \<Rightarrow> initRandomLanes rest difficulty (ls @ [l]) t2)"

definition initializeLanes :: "game \<Rightarrow> game" where
  "initializeLanes g =
     (case initGrassLanes [0..<3] [] (tape g) of (ls, t1) \<Rightarrow>
      case initRandomLanes [0..<20] (difficultyMultiplier g) ls t1 of (ls', t2) \<Rightarrow>
        g\<lparr> lanes := ls', tape := t2 \<rparr>)"

text \<open>\<^verbatim>\<open>Game.__init__\<close>, given the file system and the random source it starts with.\<close>

definition Game :: "disk \<Rightarrow> rng \<Rightarrow> game" where
  "Game d t =
     initializeLanes
       \<lparr> startScreen = True, playing = False, gameOver = False,
         score = 0, highScore = loadHighScore d, bestProgress = 0,
         cameraY = 0,
         player = Player (SCREEN_WIDTH div 2) (SCREEN_HEIGHT - GRID_SIZE * 2),
         lanes = [], particles = [],
         difficultyMultiplier = 1,
         deathAnimationTimer = 0, flashTimer = 0,
         tape = t, hsFile = d \<rparr>"

definition restart :: "game \<Rightarrow> game" where
  "restart g =
     initializeLanes
       (g\<lparr> playing := True, gameOver := False, startScreen := False,
           score := 0, bestProgress := 0, cameraY := 0,
           difficultyMultiplier := 1,
           player := Player (SCREEN_WIDTH div 2) (SCREEN_HEIGHT - GRID_SIZE * 2),
           particles := [],
           deathAnimationTimer := 0 \<rparr>)"

definition updateCamera :: "game \<Rightarrow> game" where
  "updateCamera g =
     (let targetCameraY = py (player g) - real_of_int (SCREEN_HEIGHT * 2) / 3
      in if targetCameraY < cameraY g then g\<lparr> cameraY := targetCameraY \<rparr> else g)"

text \<open>\<^verbatim>\<open>self.lanes[-3:]\<close> when there are at least three lanes, and the weights after the two
  adjustments.\<close>

definition recentLanes :: "lane list \<Rightarrow> string list" where
  "recentLanes ls = (if length ls \<ge> 3 then map laneType (drop (length ls - 3) ls) else [])"

definition laneWeights :: "string list \<Rightarrow> real list" where
  "laneWeights recent =
     (let w0 = [2, 3, 2];
          w1 = (if count_list recent ''road'' \<ge> 2 then w0[1 := 1] else w0);
          w2 = (if count_list recent ''water'' \<ge> 2 then w1[2 := 1] else w1)
      in w2)"

function generateLoop :: "real \<Rightarrow> real \<Rightarrow> real \<Rightarrow> lane list \<Rightarrow> rng \<Rightarrow> lane list \<times> rng" where
  "generateLoop highestY camY difficulty ls t =
     (if highestY > camY - real_of_int (GRID_SIZE * 5) then
        (let newY = highestY - real_of_int GRID_SIZE
         in case choices [''grass'', ''road'', ''water''] (laneWeights (recentLanes ls)) t
            of (ty, t1) \<Rightarrow>
            case newLane ty newY difficulty t1 of (l, t2) \<Rightarrow>
              generateLoop newY camY difficulty (ls @ [l]) t2)
      else (ls, t))"
  by pat_completeness auto
termination
proof (relation "measure (\<lambda>(h, c, d, ls, t). nat \<lceil>h - c + 250\<rceil>)")
  show "wf (measure (\<lambda>(h, c, d, ls, t). nat \<lceil>h - c + 250\<rceil>))"
    by simp
next
  fix highestY camY difficulty :: real and ls :: "lane list" and t :: rng
    and newY :: real and x2 :: "string \<times> rng" and ty t1 and y2 :: "lane \<times> rng" and l t2
  assume gt: "camY - real_of_int (GRID_SIZE * 5) < highestY"
    and ny: "newY = highestY - real_of_int GRID_SIZE"
  have pos: "0 < highestY - camY + 250"
    using gt by (simp add: GRID_SIZE_def)
  have "\<lceil>newY - camY + 250\<rceil> = \<lceil>highestY - camY + 250\<rceil> - 50"
    using ny by (simp add: GRID_SIZE_def algebra_simps) linarith
  moreover have "0 < \<lceil>highestY - camY + 250\<rceil>"
    using pos by linarith
  ultimately show "((newY, camY, difficulty, ls @ [l], t2), (highestY, camY, difficulty, ls, t))
      \<in> measure (\<lambda>(h, c, d, ls, t). nat \<lceil>h - c + 250\<rceil>)"
    by simp
qed

declare generateLoop.simps [simp del]

fun minimum :: "real list \<Rightarrow> real" where
  "minimum [] = 0"
| "minimum [v] = v"
| "minimum (v # w # ws) = min v (minimum (w # ws))"

definition generateNewLanes :: "game \<Rightarrow> game" where
  "generateNewLanes g =
     (let highestY = (if lanes g \<noteq> [] then minimum (map laneY (lanes g)) else 0)
      in case generateLoop highestY (cameraY g) (difficultyMultiplier g) (lanes g) (tape g)
         of (ls, t) \<Rightarrow> g\<lparr> lanes := ls, tape := t \<rparr>)"

definition cleanupOldLanes :: "game \<Rightarrow> game" where
  "cleanupOldLanes g =
     (let cleanupY = cameraY g + real_of_int (SCREEN_HEIGHT + GRID_SIZE * 3)
      in g\<lparr> lanes := filter (\<lambda>l. laneY l < cleanupY) (lanes g) \<rparr>)"

definition getLaneAtY :: "lane list \<Rightarrow> real \<Rightarrow> lane option" where
  "getLaneAtY ls v =
     find (\<lambda>l. laneY l \<le> v \<and> v \<le> laneY l + real_of_int GRID_SIZE) ls"

definition checkVehicleCollision :: "player \<Rightarrow> obstacle \<Rightarrow> bool" where
  "checkVehicleCollision p vehicle =
     (let hitboxPadding = 5;
          vehicleLeft = ox vehicle - hitboxPadding;
          vehicleRight = ox vehicle + owidth vehicle + hitboxPadding;
          vehicleTop = oy vehicle - hitboxPadding;
          vehicleBottom = oy vehicle + oheight vehicle + hitboxPadding;
          playerRadius = real_of_int (PLAYER_SIZE div 2 - 5);
          playerLeft = px p - playerRadius;
          playerRight = px p + playerRadius;
          playerTop = py p - playerRadius;
          playerBottom = py p + playerRadius
      in playerRight > vehicleLeft \<and> playerLeft < vehicleRight \<and>
         playerBottom > vehicleTop \<and> playerTop < vehicleBottom)"

definition checkLogCollision :: "player \<Rightarrow> obstacle \<Rightarrow> bool" where
  "checkLogCollision p lg =
     (let logLeft = ox lg;
          logRight = ox lg + owidth lg;
          logTop = oy lg;
          logBottom = oy lg + oheight lg
      in logLeft \<le> px p \<and> px p \<le> logRight \<and> logTop \<le> py p \<and> py p \<le> logBottom)"

fun addParticles :: "nat \<Rightarrow> real \<Rightarrow> real \<Rightarrow> particle list \<Rightarrow> rng \<Rightarrow> particle list \<times> rng" where
  "addParticles 0 x0 y0 qs t = (qs, t)"
| "addParticles (Suc k) x0 y0 qs t =
     (case Particle x0 y0 RED t of (q, t1) \<Rightarrow> addParticles k x0 y0 (qs @ [q]) t1)"

definition createDeathParticles :: "game \<Rightarrow> game" where
  "createDeathParticles g =
     (case addParticles 20 (px (player g)) (py (player g)) (particles g) (tape g) of
        (qs, t) \<Rightarrow> g\<lparr> particles := qs, tape := t \<rparr>)"

definition killPlayer :: "game \<Rightarrow> game" where
  "killPlayer g = createDeathParticles (g\<lparr> player := Player_die (player g) \<rparr>)"

definition checkCollisions :: "game \<Rightarrow> game" where
  "checkCollisions g =
     (if dead (player g) then g
      else case getLaneAtY (lanes g) (py (player g)) of
        None \<Rightarrow> g
      | Some playerLane \<Rightarrow>
          if laneType playerLane = ''road'' then
            (if list_ex (checkVehicleCollision (player g)) (obstacles playerLane)
             then killPlayer g else g)
          else if laneType playerLane = ''water'' then
            (case find (checkLogCollision (player g)) (obstacles playerLane) of
               Some logToRideOn \<Rightarrow>
                 (let x1 = px (player g) + ospeed logToRideOn;
                      g1 = g\<lparr> player := (player g)\<lparr> px := x1,
                                gridX := \<lfloor>x1 / real_of_int GRID_SIZE\<rfloor> \<rparr> \<rparr>
                  in if x1 < real_of_int (PLAYER_SIZE div 2)
                        \<or> x1 > real_of_int (SCREEN_WIDTH - PLAYER_SIZE div 2)
                     then killPlayer g1 else g1)
             | None \<Rightarrow> killPlayer g)
          else g)"

definition endGame :: "game \<Rightarrow> game" where
  "endGame g =
     (let g1 = g\<lparr> gameOver := True, playing := False \<rparr>
      in if score g1 > highScore g1
         then g1\<lparr> highScore := score g1, hsFile := saveHighScore (score g1) (hsFile g1) \<rparr>
         else g1)"

definition updateProgress :: "game \<Rightarrow> game" where
  "updateProgress g =
     (if gridY (player g) < bestProgress g then
        (let g1 = g\<lparr> bestProgress := gridY (player g) \<rparr>;
             g2 = g1\<lparr> score := \<bar>bestProgress g1\<bar> * 10 \<rparr>
         in if \<bar>bestProgress g2\<bar> mod 10 = 0
            then g2\<lparr> difficultyMultiplier := difficultyMultiplier g2 + 1 / 10 \<rparr>
            else g2)
      else g)"

definition updateParticles :: "game \<Rightarrow> game" where
  "updateParticles g =
     g\<lparr> particles := filter (\<lambda>q. \<not> lifetime q \<le> 0) (map Particle_update (particles g)) \<rparr>"

definition checkDeathZone :: "game \<Rightarrow> game" where
  "checkDeathZone g =
     (let deathZone = cameraY g + real_of_int (SCREEN_HEIGHT + GRID_SIZE)
      in if py (player g) > deathZone then g\<lparr> player := Player_die (player g) \<rparr> else g)"

definition handleDeath :: "game \<Rightarrow> game" where
  "handleDeath g =
     (if dead (player g) then
        (let g1 = g\<lparr> deathAnimationTimer := deathAnimationTimer g + 1 \<rparr>
         in if deathAnimationTimer g1 > 60 then endGame g1 else g1)
      else g)"

text \<open>\<^verbatim>\<open>Game.update\<close>: the statements of the method in their order, each block of the
  source a function above.\<close>

definition Game_update :: "game \<Rightarrow> game" where
  "Game_update g =
     (if \<not> playing g \<or> gameOver g then g
      else
        let g1 = g\<lparr> player := Player_update (player g) \<rparr>;
            g2 = updateCamera g1;
            g3 = (case updateLanes (lanes g2) (tape g2) of (ls, t) \<Rightarrow> g2\<lparr> lanes := ls, tape := t \<rparr>);
            g4 = updateProgress g3;
            g5 = generateNewLanes g4;
            g6 = cleanupOldLanes g5;
            g7 = checkCollisions g6;
            g8 = updateParticles g7;
            g9 = checkDeathZone g8
        in handleDeath g9)"

subsection \<open>Input and the run loop\<close>

datatype key =
  K_UP | K_w | K_DOWN | K_s | K_LEFT | K_a | K_RIGHT | K_d | K_k | K_l | K_SPACE | K_ESCAPE
  | K_other

datatype event = QUIT | KEYDOWN key | OTHER

definition movePlayer :: "int \<Rightarrow> int \<Rightarrow> game \<Rightarrow> game" where
  "movePlayer dx dy g = g\<lparr> player := Player_move dx dy (player g) \<rparr>"

definition onKeyDown :: "key \<Rightarrow> game \<Rightarrow> game" where
  "onKeyDown k g =
     (if startScreen g then (if k = K_SPACE then restart g else g)
      else if gameOver g then (if k = K_SPACE then restart g else g)
      else if playing g then
        (if k = K_UP \<or> k = K_w then movePlayer 0 (-1) g
         else if k = K_DOWN \<or> k = K_s then movePlayer 0 1 g
         else if k = K_LEFT \<or> k = K_a then movePlayer (-1) 0 g
         else if k = K_RIGHT \<or> k = K_d then movePlayer 1 0 g
         else if k = K_k then g\<lparr> player := Player_die (player g) \<rparr>
         else if k = K_l then g\<lparr> player := (player g)\<lparr> gridY := gridY (player g) - 10 \<rparr> \<rparr>
         else g)
      else g)"

fun handleEvents :: "event list \<Rightarrow> game \<Rightarrow> bool \<times> game" where
  "handleEvents [] g = (True, g)"
| "handleEvents (QUIT # es) g = (False, g)"
| "handleEvents (KEYDOWN k # es) g =
     (let g1 = onKeyDown k g in if k = K_ESCAPE then (False, g1) else handleEvents es g1)"
| "handleEvents (OTHER # es) g = handleEvents es g"

text \<open>\<^verbatim>\<open>Game.run\<close> on the events of successive frames: the update of the frame in which
  \<^verbatim>\<open>handleEvents\<close> returns False still runs, then the loop ends.\<close>

fun run :: "event list list \<Rightarrow> game \<Rightarrow> game" where
  "run [] g = g"
| "run (evs # rest) g =
     (case handleEvents evs g of (running, g1) \<Rightarrow>
        let g2 = Game_update g1 in if running then run rest g2 else g2)"

text \<open>The states a session passes through, between any two statements of the run loop.\<close>

inductive reachable :: "game \<Rightarrow> bool" where
  start: "reachable (Game d t)"
| events: "reachable g \<Longrightarrow> reachable (snd (handleEvents evs g))"
| update: "reachable g \<Longrightarrow> reachable (Game_update g)"

section \<open>Auxiliary definitions\<close>

subsection \<open>States inside Game.update\<close>

text \<open>The state in which \<open>Game.update\<close> recomputes progress and score.\<close>

definition beforeProgress :: "game \<Rightarrow> game" where
  "beforeProgress g =
     (let g2 = updateCamera (g\<lparr>player := Player_update (player g)\<rparr>)
      in case updateLanes (lanes g2) (tape g2) of (ls, t) \<Rightarrow> g2\<lparr>lanes := ls, tape := t\<rparr>)"

text \<open>The state in which \<open>Game.update\<close> calls \<open>checkCollisions\<close>.\<close>

definition beforeCollisions :: "game \<Rightarrow> game" where
  "beforeCollisions g =
     cleanupOldLanes (generateNewLanes (updateProgress (beforeProgress g)))"

text \<open>The state in which \<open>Game.update\<close> handles the player's death.\<close>

definition beforeDeath :: "game \<Rightarrow> game" where
  "beforeDeath g =
     checkDeathZone (updateParticles (checkCollisions (cleanupOldLanes (generateNewLanes
       (updateProgress (beforeProgress g))))))"

subsection \<open>Calls on the player alone\<close>

text \<open>\<^verbatim>\<open>move(dx, dy)\<close> and \<^verbatim>\<open>update()\<close> on a player, in any order.\<close>

datatype playerCall = Move int int | Update

fun playerCalls :: "playerCall list \<Rightarrow> player \<Rightarrow> player" where
  "playerCalls [] p = p"
| "playerCalls (Move dx dy # cs) p = playerCalls cs (Player_move dx dy p)"
| "playerCalls (Update # cs) p = playerCalls cs (Player_update p)"

subsection \<open>Lane fields\<close>






subsection \<open>Digit strings\<close>

text \<open>The number a string of digits denotes, read from the left onto an accumulator.\<close>

definition digitsValue :: "nat \<Rightarrow> string \<Rightarrow> nat" where
  "digitsValue acc ds = foldl (\<lambda>a c. 10 * a + digitVal c) acc ds"

subsection \<open>Concrete sessions\<close>

text \<open>Concrete inputs: no high-score file on a writable disk, the tape of zeros, and the
  session after the start screen was left with SPACE.\<close>

definition noFile :: disk where
  "noFile = \<lparr> fileText = None, writable = True \<rparr>"

definition zeroTape :: rng where
  "zeroTape = (\<lambda>_. 0)"

text \<open>The tape on which every draw is the given value.\<close>

definition constTape :: "real \<Rightarrow> rng" where
  "constTape r = (\<lambda>_. r)"

definition firstLife :: game where
  "firstLife = snd (handleEvents [KEYDOWN K_SPACE] (Game noFile zeroTape))"

text \<open>The field of 23 flowerless grass lanes that the tape of zeros draws, and the playing
  session on it with score 0.\<close>

definition grassAt :: "real \<Rightarrow> lane" where
  "grassAt y0 =
     \<lparr> laneY = y0, laneType = ''grass'', obstacles = [], spawnTimer = 0,
       spawnInterval = 60, laneColor = GRASS_GREEN, flowers = [],
       direction = 0, laneDifficulty = 0 \<rparr>"

definition meadow :: "lane list" where
  "meadow = map grassAt
     [600, 550, 500, 450, 400, 350, 300, 250, 200, 150, 100, 50, 0, -50,
      -100, -150, -200, -250, -300, -350, -400, -450, -500]"

definition meadowGame :: "player \<Rightarrow> real \<Rightarrow> game" where
  "meadowGame p cam =
     \<lparr> startScreen = False, playing = True, gameOver = False,
       score = 0, highScore = 0, bestProgress = 0, cameraY = cam, player = p,
       lanes = meadow, particles = [], difficultyMultiplier = 1,
       deathAnimationTimer = 0, flashTimer = 0, tape = zeroTape, hsFile = noFile \<rparr>"

text \<open>One hop: the key press, and the eleven further frames until the animation has ended
  and the cooldown has run out. Five hops after SPACE on the start screen.\<close>

definition hopUp :: "event list list" where
  "hopUp = [[KEYDOWN K_UP], [], [], [], [], [], [], [], [], [], [], []]"

definition fiveHops :: "event list list" where
  "fiveHops = [KEYDOWN K_SPACE] # hopUp @ hopUp @ hopUp @ hopUp @ hopUp"

text \<open>A session on the meadow whose player died 60 frames ago with score 30.\<close>

definition dying :: game where
  "dying = (meadowGame ((Player 400 500)\<lparr>dead := True\<rparr>) 0)
     \<lparr> score := 30, bestProgress := -3, deathAnimationTimer := 60 \<rparr>"

text \<open>A water lane without logs and a road lane with one vehicle, and sessions on the
  meadow's player with a lane field of one's own.\<close>

definition waterAt :: "real \<Rightarrow> lane" where
  "waterAt y0 =
     \<lparr> laneY = y0, laneType = ''water'', obstacles = [], spawnTimer = 0,
       spawnInterval = 60, laneColor = WATER_BLUE, flowers = [],
       direction = 1, laneDifficulty = 1 \<rparr>"



text \<open>The session on the tape whose every draw is 9/10, after SPACE, one update frame
  and the key press \<^verbatim>\<open>up\<close>; and what the tape draws: grass lanes with three flowers and
  water lanes flowing to the right with a log every 96 frames.\<close>

definition hopIntoWater :: game where
  "hopIntoWater =
     snd (handleEvents [KEYDOWN K_UP]
       (Game_update (snd (handleEvents [KEYDOWN K_SPACE] (Game noFile (constTape (9 / 10)))))))"

definition flowerBedAt :: "real \<Rightarrow> lane" where
  "flowerBedAt y0 =
     (grassAt y0)\<lparr> flowers :=
        [\<lparr> flowerX = 720, flowerColor = PURPLE \<rparr>, \<lparr> flowerX = 720, flowerColor = PURPLE \<rparr>,
         \<lparr> flowerX = 720, flowerColor = PURPLE \<rparr>] \<rparr>"

definition pondAt :: "int \<Rightarrow> real \<Rightarrow> lane" where
  "pondAt timer y0 = (waterAt y0)\<lparr> spawnInterval := 96, spawnTimer := timer \<rparr>"

definition wetField :: "int \<Rightarrow> lane list" where
  "wetField timer =
     map flowerBedAt [600, 550, 500] @
     map (pondAt timer)
       [450, 400, 350, 300, 250, 200, 150, 100, 50, 0, -50,
        -100, -150, -200, -250, -300, -350, -400, -450, -500]"

definition wetGame :: "int \<Rightarrow> player \<Rightarrow> game" where
  "wetGame timer p =
     (meadowGame p 0)\<lparr> lanes := wetField timer, tape := constTape (9 / 10) \<rparr>"


subsection \<open>Draws of the lane type\<close>




section \<open>Frame lemmas and invariants\<close>

subsection \<open>What each step of the update leaves alone\<close>

lemma initializeLanes_keeps:
  "score (initializeLanes g) = score g"
  "bestProgress (initializeLanes g) = bestProgress g"
  "highScore (initializeLanes g) = highScore g"
  "cameraY (initializeLanes g) = cameraY g"
  "startScreen (initializeLanes g) = startScreen g"
  "playing (initializeLanes g) = playing g"
  "gameOver (initializeLanes g) = gameOver g"
  "player (initializeLanes g) = player g"
  "particles (initializeLanes g) = particles g"
  "difficultyMultiplier (initializeLanes g) = difficultyMultiplier g"
  "deathAnimationTimer (initializeLanes g) = deathAnimationTimer g"
  "flashTimer (initializeLanes g) = flashTimer g"
  "hsFile (initializeLanes g) = hsFile g"
  by (simp_all add: initializeLanes_def split: prod.splits)

lemma updateCamera_keeps:
  "score (updateCamera g) = score g"
  "bestProgress (updateCamera g) = bestProgress g"
  "highScore (updateCamera g) = highScore g"
  "player (updateCamera g) = player g"
  "gameOver (updateCamera g) = gameOver g"
  by (simp_all add: updateCamera_def Let_def)

lemma generateNewLanes_keeps:
  "score (generateNewLanes g) = score g"
  "bestProgress (generateNewLanes g) = bestProgress g"
  "highScore (generateNewLanes g) = highScore g"
  "cameraY (generateNewLanes g) = cameraY g"
  "player (generateNewLanes g) = player g"
  "gameOver (generateNewLanes g) = gameOver g"
  by (simp_all add: generateNewLanes_def Let_def split: prod.splits)

lemma cleanupOldLanes_keeps:
  "score (cleanupOldLanes g) = score g"
  "bestProgress (cleanupOldLanes g) = bestProgress g"
  "highScore (cleanupOldLanes g) = highScore g"
  "cameraY (cleanupOldLanes g) = cameraY g"
  "player (cleanupOldLanes g) = player g"
  "gameOver (cleanupOldLanes g) = gameOver g"
  by (simp_all add: cleanupOldLanes_def Let_def)

lemma createDeathParticles_keeps:
  "score (createDeathParticles g) = score g"
  "bestProgress (createDeathParticles g) = bestProgress g"
  "highScore (createDeathParticles g) = highScore g"
  "cameraY (createDeathParticles g) = cameraY g"
  "player (createDeathParticles g) = player g"
  "lanes (createDeathParticles g) = lanes g"
  "gameOver (createDeathParticles g) = gameOver g"
  by (simp_all add: createDeathParticles_def split: prod.splits)

lemma killPlayer_keeps:
  "score (killPlayer g) = score g"
  "bestProgress (killPlayer g) = bestProgress g"
  "highScore (killPlayer g) = highScore g"
  "cameraY (killPlayer g) = cameraY g"
  "lanes (killPlayer g) = lanes g"
  "gameOver (killPlayer g) = gameOver g"
  "player (killPlayer g) = Player_die (player g)"
  by (simp_all add: killPlayer_def createDeathParticles_keeps)

lemma checkCollisions_keeps:
  "score (checkCollisions g) = score g"
  "bestProgress (checkCollisions g) = bestProgress g"
  "highScore (checkCollisions g) = highScore g"
  "cameraY (checkCollisions g) = cameraY g"
  "lanes (checkCollisions g) = lanes g"
  "gameOver (checkCollisions g) = gameOver g"
  by (simp_all add: checkCollisions_def killPlayer_keeps Let_def split: option.splits)

lemma updateParticles_keeps:
  "score (updateParticles g) = score g"
  "bestProgress (updateParticles g) = bestProgress g"
  "highScore (updateParticles g) = highScore g"
  "cameraY (updateParticles g) = cameraY g"
  "gameOver (updateParticles g) = gameOver g"
  by (simp_all add: updateParticles_def)

lemma checkDeathZone_keeps:
  "score (checkDeathZone g) = score g"
  "bestProgress (checkDeathZone g) = bestProgress g"
  "highScore (checkDeathZone g) = highScore g"
  "cameraY (checkDeathZone g) = cameraY g"
  "gameOver (checkDeathZone g) = gameOver g"
  by (simp_all add: checkDeathZone_def Let_def)

lemma endGame_keeps:
  "score (endGame g) = score g"
  "bestProgress (endGame g) = bestProgress g"
  "cameraY (endGame g) = cameraY g"
  by (simp_all add: endGame_def Let_def)

lemma handleDeath_keeps:
  "score (handleDeath g) = score g"
  "bestProgress (handleDeath g) = bestProgress g"
  "cameraY (handleDeath g) = cameraY g"
  by (simp_all add: handleDeath_def endGame_keeps Let_def)

lemma updateProgress_keeps:
  "highScore (updateProgress g) = highScore g"
  "cameraY (updateProgress g) = cameraY g"
  "player (updateProgress g) = player g"
  "gameOver (updateProgress g) = gameOver g"
  by (simp_all add: updateProgress_def Let_def)

lemma updateLanes_step_keeps:
  "score (case updateLanes ls t of (ls', t') \<Rightarrow> g\<lparr> lanes := ls', tape := t' \<rparr>) = score g"
  "bestProgress (case updateLanes ls t of (ls', t') \<Rightarrow> g\<lparr> lanes := ls', tape := t' \<rparr>) = bestProgress g"
  "highScore (case updateLanes ls t of (ls', t') \<Rightarrow> g\<lparr> lanes := ls', tape := t' \<rparr>) = highScore g"
  "cameraY (case updateLanes ls t of (ls', t') \<Rightarrow> g\<lparr> lanes := ls', tape := t' \<rparr>) = cameraY g"
  "player (case updateLanes ls t of (ls', t') \<Rightarrow> g\<lparr> lanes := ls', tape := t' \<rparr>) = player g"
  "gameOver (case updateLanes ls t of (ls', t') \<Rightarrow> g\<lparr> lanes := ls', tape := t' \<rparr>) = gameOver g"
  by (simp_all split: prod.splits)

lemmas keeps = initializeLanes_keeps updateCamera_keeps generateNewLanes_keeps
  cleanupOldLanes_keeps checkCollisions_keeps updateParticles_keeps checkDeathZone_keeps
  handleDeath_keeps updateProgress_keeps updateLanes_step_keeps


lemma Game_update_beforeDeath:
  "playing g \<Longrightarrow> \<not> gameOver g \<Longrightarrow> Game_update g = handleDeath (beforeDeath g)"
  by (simp add: Game_update_def beforeDeath_def beforeProgress_def Let_def)

subsection \<open>Camera, progress and score\<close>

lemma updateCamera_le: "cameraY (updateCamera g) \<le> cameraY g"
  by (simp add: updateCamera_def Let_def)

lemma Game_update_cameraY: "cameraY (Game_update g) \<le> cameraY g"
proof (cases "\<not> playing g \<or> gameOver g")
  case True
  then show ?thesis by (simp add: Game_update_def)
next
  case False
  then have "cameraY (Game_update g) = cameraY (updateCamera (g\<lparr>player := Player_update (player g)\<rparr>))"
    by (simp add: Game_update_def Let_def keeps)
  also have "\<dots> \<le> cameraY (g\<lparr>player := Player_update (player g)\<rparr>)"
    by (rule updateCamera_le)
  finally show ?thesis by simp
qed

lemma updates_cameraY: "cameraY ((Game_update ^^ n) g) \<le> cameraY g"
proof (induction n)
  case 0
  show ?case by simp
next
  case (Suc n)
  have "cameraY ((Game_update ^^ Suc n) g) \<le> cameraY ((Game_update ^^ n) g)"
    by (simp add: Game_update_cameraY)
  with Suc show ?case by linarith
qed

lemma updateProgress_best: "bestProgress (updateProgress g) \<le> bestProgress g"
  by (simp add: updateProgress_def Let_def)

lemma updateProgress_inv:
  "score g = 10 * \<bar>bestProgress g\<bar> \<Longrightarrow> bestProgress g \<le> 0 \<Longrightarrow>
   score (updateProgress g) = 10 * \<bar>bestProgress (updateProgress g)\<bar> \<and>
   bestProgress (updateProgress g) \<le> 0 \<and> score g \<le> score (updateProgress g)"
  by (simp add: updateProgress_def Let_def)

lemma beforeProgress_keeps:
  "score (beforeProgress g) = score g"
  "bestProgress (beforeProgress g) = bestProgress g"
  by (simp_all add: beforeProgress_def Let_def keeps)

lemma Game_update_progress:
  "playing g \<Longrightarrow> \<not> gameOver g \<Longrightarrow>
   score (Game_update g) = score (updateProgress (beforeProgress g)) \<and>
   bestProgress (Game_update g) = bestProgress (updateProgress (beforeProgress g))"
  by (simp add: Game_update_def beforeProgress_def Let_def keeps)

lemma Game_update_best: "bestProgress (Game_update g) \<le> bestProgress g"
proof (cases "\<not> playing g \<or> gameOver g")
  case True
  then show ?thesis by (simp add: Game_update_def)
next
  case False
  then show ?thesis
    using updateProgress_best [of "beforeProgress g"]
    by (simp add: Game_update_progress beforeProgress_keeps)
qed

lemma Game_update_inv:
  assumes "score g = 10 * \<bar>bestProgress g\<bar>" and "bestProgress g \<le> 0"
  shows "score (Game_update g) = 10 * \<bar>bestProgress (Game_update g)\<bar> \<and>
     bestProgress (Game_update g) \<le> 0 \<and> score g \<le> score (Game_update g)"
proof (cases "\<not> playing g \<or> gameOver g")
  case True
  then show ?thesis using assms by (simp add: Game_update_def)
next
  case False
  then have pg: "playing g" "\<not> gameOver g" by simp_all
  have a: "score (beforeProgress g) = 10 * \<bar>bestProgress (beforeProgress g)\<bar>"
    "bestProgress (beforeProgress g) \<le> 0"
    using assms by (simp_all add: beforeProgress_keeps)
  show ?thesis
    using updateProgress_inv [OF a]
    by (auto simp: Game_update_progress [OF pg] beforeProgress_keeps)
qed

lemma restart_progress: "score (restart g) = 0 \<and> bestProgress (restart g) = 0"
  by (simp add: restart_def keeps)

lemma onKeyDown_inv:
  "score g = 10 * \<bar>bestProgress g\<bar> \<and> bestProgress g \<le> 0 \<Longrightarrow>
   score (onKeyDown k g) = 10 * \<bar>bestProgress (onKeyDown k g)\<bar> \<and> bestProgress (onKeyDown k g) \<le> 0"
  by (simp add: onKeyDown_def movePlayer_def restart_progress)

lemma handleEvents_inv:
  "score g = 10 * \<bar>bestProgress g\<bar> \<and> bestProgress g \<le> 0 \<Longrightarrow>
   score (snd (handleEvents evs g)) = 10 * \<bar>bestProgress (snd (handleEvents evs g))\<bar> \<and>
   bestProgress (snd (handleEvents evs g)) \<le> 0"
proof (induction evs g rule: handleEvents.induct)
  case (3 k es g)
  then show ?case using onKeyDown_inv [of g k] by (auto simp: Let_def)
qed simp_all

lemma Game_progress: "score (Game d t) = 0 \<and> bestProgress (Game d t) = 0"
  by (simp add: Game_def keeps)

lemma reachable_inv:
  "reachable g \<Longrightarrow> score g = 10 * \<bar>bestProgress g\<bar> \<and> bestProgress g \<le> 0"
proof (induction rule: reachable.induct)
  case (start d t)
  show ?case by (simp add: Game_progress)
next
  case (events g evs)
  from events.IH show ?case by (rule handleEvents_inv)
next
  case (update g)
  then show ?case using Game_update_inv [of g] by simp
qed

text \<open>Key presses during a life: neither the start screen nor the game-over screen.\<close>

lemma onKeyDown_life:
  "\<not> startScreen g \<Longrightarrow> \<not> gameOver g \<Longrightarrow>
   \<not> startScreen (onKeyDown k g) \<and> \<not> gameOver (onKeyDown k g) \<and>
   score (onKeyDown k g) = score g \<and> bestProgress (onKeyDown k g) = bestProgress g \<and>
   cameraY (onKeyDown k g) = cameraY g \<and> highScore (onKeyDown k g) = highScore g"
  by (simp add: onKeyDown_def movePlayer_def)

lemma handleEvents_life:
  "\<not> startScreen g \<Longrightarrow> \<not> gameOver g \<Longrightarrow>
   score (snd (handleEvents evs g)) = score g \<and>
   bestProgress (snd (handleEvents evs g)) = bestProgress g \<and>
   cameraY (snd (handleEvents evs g)) = cameraY g \<and>
   highScore (snd (handleEvents evs g)) = highScore g"
proof (induction evs g rule: handleEvents.induct)
  case (3 k es g)
  then show ?case using onKeyDown_life [of g k] by (auto simp: Let_def)
qed simp_all

subsection \<open>The player's column\<close>

lemma Player_update_gridX: "gridX (Player_update p) = gridX p"
  by (simp add: Player_update_def Let_def)

lemma Player_move_gridX:
  "0 \<le> gridX p \<and> gridX p \<le> 15 \<Longrightarrow>
   0 \<le> gridX (Player_move dx dy p) \<and> gridX (Player_move dx dy p) \<le> 15"
  by (simp add: Player_move_def Let_def game_consts)

subsection \<open>The high score in memory\<close>

lemma initGrassLanes_length: "length (fst (initGrassLanes rows ls t)) = length ls + length rows"
  by (induction rows ls t rule: initGrassLanes.induct) (simp_all split: prod.splits)

lemma initRandomLanes_length:
  "length (fst (initRandomLanes rows d ls t)) = length ls + length rows"
  by (induction rows d ls t rule: initRandomLanes.induct) (simp_all split: prod.splits)

lemma initializeLanes_lanes:
  "lanes (initializeLanes g) =
     fst (initRandomLanes [0..<20] (difficultyMultiplier g)
            (fst (initGrassLanes [0..<3] [] (tape g))) (snd (initGrassLanes [0..<3] [] (tape g))))"
  by (simp add: initializeLanes_def split: prod.splits)

lemma onKeyDown_highScore: "highScore (onKeyDown k g) = highScore g"
  by (simp add: onKeyDown_def movePlayer_def restart_def keeps)

lemma handleEvents_highScore: "highScore (snd (handleEvents evs g)) = highScore g"
proof (induction evs g rule: handleEvents.induct)
  case (3 k es g)
  then show ?case by (auto simp: Let_def onKeyDown_highScore)
qed simp_all

lemma handleDeath_highScore:
  "highScore (handleDeath g) \<noteq> highScore g \<Longrightarrow>
   gameOver (handleDeath g) \<and> highScore g < score g \<and> highScore (handleDeath g) = score g"
  by (simp add: handleDeath_def endGame_def Let_def split: if_splits)

lemma beforeProgress_highScore: "highScore (beforeProgress g) = highScore g"
  by (simp add: beforeProgress_def Let_def keeps)

lemma beforeDeath_highScore: "highScore (beforeDeath g) = highScore g"
  by (simp add: beforeDeath_def keeps beforeProgress_highScore)

lemma Game_update_highScore:
  assumes "highScore (Game_update g) \<noteq> highScore g"
  shows "playing g \<and> \<not> gameOver g \<and> gameOver (Game_update g) \<and>
    highScore g < score (Game_update g) \<and> highScore (Game_update g) = score (Game_update g)"
proof -
  have "playing g \<and> \<not> gameOver g"
  proof (rule ccontr)
    assume "\<not> (playing g \<and> \<not> gameOver g)"
    then have "Game_update g = g" by (auto simp: Game_update_def)
    with assms show False by simp
  qed
  then have pg: "playing g" "\<not> gameOver g" by simp_all
  have eq: "Game_update g = handleDeath (beforeDeath g)"
    using pg by (rule Game_update_beforeDeath)
  have "highScore (handleDeath (beforeDeath g)) \<noteq> highScore (beforeDeath g)"
    using assms by (simp add: eq beforeDeath_highScore)
  from handleDeath_highScore [OF this] show ?thesis
    using pg by (simp add: eq beforeDeath_highScore handleDeath_keeps)
qed

subsection \<open>The lane field of a session\<close>












lemma range3: "[0..<3] = [0, 1, 2]"
  by code_simp

lemma range20:
  "[0..<20] = [0, 1, 2, 3, 4, 5, 6, 7, 8, 9, 10, 11, 12, 13, 14, 15, 16, 17, 18, 19]"
  by code_simp


















subsection \<open>Collision resolution\<close>

lemma createDeathParticles_lanes:
  "createDeathParticles (g\<lparr>lanes := ls\<rparr>) = (createDeathParticles g)\<lparr>lanes := ls\<rparr>"
  by (simp add: createDeathParticles_def split: prod.splits)







subsection \<open>Integers as text\<close>

lemma of_char_digitChar: "d < 10 \<Longrightarrow> (of_char (digitChar d) :: nat) = 48 + d"
  by (simp add: digitChar_def)

lemma digitChar_props:
  assumes "d < 10"
  shows "isDigit (digitChar d)" and "digitVal (digitChar d) = d"
    and "\<not> isSpace (digitChar d)"
  using assms of_char_digitChar [OF assms]
  by (simp_all add: isDigit_def digitVal_def isSpace_def)

lemma isDigit_not_sign: "isDigit c \<Longrightarrow> c \<noteq> CHR ''-'' \<and> c \<noteq> CHR ''+''"
  by (auto simp: isDigit_def)

lemma pyDigits_append:
  "list_all isDigit xs \<Longrightarrow> pyDigits acc (xs @ ys) = pyDigits (digitsValue acc xs) ys"
  by (induction xs arbitrary: acc) (simp_all add: digitsValue_def)

lemma natStr_digits:
  "list_all isDigit (natStr n) \<and> digitsValue 0 (natStr n) = n \<and> natStr n \<noteq> [] \<and>
   \<not> isSpace (last (natStr n))"
proof (induction n rule: natStr.induct)
  case (1 n)
  show ?case
  proof (cases "n < 10")
    case True
    then show ?thesis
      by (simp add: natStr.simps [of n] digitChar_props digitsValue_def)
  next
    case False
    have m: "n mod 10 < 10" by simp
    from False 1 have ih: "list_all isDigit (natStr (n div 10))"
      "digitsValue 0 (natStr (n div 10)) = n div 10"
      by simp_all
    have "digitsValue 0 (natStr n) = 10 * (n div 10) + n mod 10"
      using False ih(2)
      by (simp add: natStr.simps [of n] digitsValue_def digitChar_props(2) [OF m])
    then show ?thesis
      using False ih(1) by (simp add: natStr.simps [of n] digitChar_props [OF m])
  qed
qed

lemma pyNat_natStr: "pyNat (natStr n) = Some n"
proof -
  obtain c cs where cs: "natStr n = c # cs"
    using natStr_digits [of n] by (cases "natStr n") simp_all
  have d: "isDigit c"
    using natStr_digits [of n] cs by simp
  have "pyNat (natStr n) = pyDigits 0 (natStr n @ [])"
    using d by (simp add: pyNat_def cs)
  also have "\<dots> = Some n"
    using natStr_digits [of n] by (simp only: pyDigits_append) simp
  finally show ?thesis .
qed

lemma strip_id:
  assumes "s \<noteq> []" and "\<not> isSpace (hd s)" and "\<not> isSpace (last s)"
  shows "strip s = s"
proof -
  have "dropWhile isSpace s = s"
    using assms(1,2) by (cases s) simp_all
  moreover have "dropWhile isSpace (rev s) = rev s"
    using assms(1,3) by (cases "rev s") (simp_all add: last_rev [symmetric] del: last_rev)
  ultimately show ?thesis by (simp add: strip_def)
qed

lemma pyInt_str: "pyInt (str i) = Some i"
proof (cases "i < 0")
  case True
  let ?s = "CHR ''-'' # natStr (nat (- i))"
  have "strip ?s = ?s"
    using natStr_digits [of "nat (- i)"] by (intro strip_id) (simp_all add: isSpace_def)
  then show ?thesis
    using True by (simp add: pyInt_def str_def pyNat_natStr)
next
  case False
  obtain c cs where cs: "natStr (nat i) = c # cs"
    using natStr_digits [of "nat i"] by (cases "natStr (nat i)") simp_all
  have d: "isDigit c"
    using natStr_digits [of "nat i"] cs by simp
  then have sp: "\<not> isSpace c"
    by (auto simp: isDigit_def isSpace_def)
  have "strip (natStr (nat i)) = natStr (nat i)"
    using natStr_digits [of "nat i"] sp cs by (intro strip_id) simp_all
  moreover have "pyNat (c # cs) = Some (nat i)"
    using pyNat_natStr [of "nat i"] cs by simp
  ultimately show ?thesis
    using False isDigit_not_sign [OF d] by (simp add: pyInt_def str_def cs)
qed

subsection \<open>Weighted choice of the lane type\<close>

lemma validTape_const: "0 \<le> r \<Longrightarrow> r < 1 \<Longrightarrow> validTape (constTape r)"
  by (simp add: validTape_def constTape_def)



























section \<open>Evaluation of concrete sessions\<close>

lemma makeFlowers_numeral:
  "makeFlowers (numeral k) t =
     (case randint 0 SCREEN_WIDTH t of (x0, t1) \<Rightarrow>
      case choice [YELLOW, WHITE, PURPLE] t1 of (c, t2) \<Rightarrow>
      case makeFlowers (pred_numeral k) t2 of (fs, t3) \<Rightarrow>
        (\<lparr> flowerX = x0, flowerColor = c \<rparr> # fs, t3))"
  by (simp add: numeral_eq_Suc)

lemma addParticles_numeral:
  "addParticles (numeral k) x0 y0 qs t =
     (case Particle x0 y0 RED t of (q, t1) \<Rightarrow> addParticles (pred_numeral k) x0 y0 (qs @ [q]) t1)"
  by (simp add: numeral_eq_Suc)

lemmas eval =
  random_def uniform_def randint_def choice_def choices_def
  Player_def Player_move_def Player_update_def Player_die_def
  Vehicle_def Log_def Obstacle_update_def Particle_def Particle_update_def
  GrassLane_def RoadLane_def WaterLane_def RoadLane_update_def WaterLane_update_def
  Lane_update_def newLane_def initializeLanes_def Game_def restart_def updateCamera_def
  recentLanes_def laneWeights_def generateNewLanes_def cleanupOldLanes_def getLaneAtY_def
  checkVehicleCollision_def checkLogCollision_def createDeathParticles_def killPlayer_def
  checkCollisions_def endGame_def updateProgress_def updateParticles_def checkDeathZone_def
  handleDeath_def Game_update_def movePlayer_def onKeyDown_def
  noFile_def zeroTape_def loadHighScore_def
  game_consts Let_def generateLoop.simps range3 range20
  makeFlowers_numeral addParticles_numeral

subsection \<open>The session on the meadow\<close>

lemma firstLife_meadow: "firstLife = meadowGame (Player 400 500) 0"
  by (simp add: firstLife_def meadowGame_def meadow_def grassAt_def eval cong: let_weak_cong)

lemma updateLanes_grass:
  "list_all (\<lambda>l. laneType l = ''grass'') ls \<Longrightarrow> updateLanes ls t = (ls, t)"
  by (induction ls) (simp_all add: Lane_update_def)

lemma checkCollisions_grass:
  assumes "list_all (\<lambda>l. laneType l = ''grass'') (lanes g)"
  shows "checkCollisions g = g"
proof (cases "getLaneAtY (lanes g) (py (player g))")
  case None
  then show ?thesis by (simp add: checkCollisions_def)
next
  case (Some l)
  then have "l \<in> set (lanes g)"
    by (auto simp: getLaneAtY_def find_Some_iff)
  with assms have "laneType l = ''grass''"
    by (simp add: list_all_iff)
  with Some show ?thesis by (simp add: checkCollisions_def)
qed

lemma meadow_grass: "list_all (\<lambda>l. laneType l = ''grass'') meadow"
  by (simp add: meadow_def grassAt_def)

lemma meadow_minimum: "minimum (map laneY meadow) = -500"
  by (simp add: meadow_def grassAt_def)

lemma meadow_cleanup: "-150 < c \<Longrightarrow> filter (\<lambda>l. laneY l < c + 750) meadow = meadow"
  by (simp add: meadow_def grassAt_def)

lemma meadow_nonempty: "meadow \<noteq> []"
  by (simp add: meadow_def)

lemma meadow_generate: "-150 < c \<Longrightarrow> generateLoop (-500) c d meadow t = (meadow, t)"
  by (simp add: generateLoop.simps game_consts)

lemma meadow_update:
  assumes "\<not> dead p" and "0 \<le> gridY p"
    and "-150 < min cam (py (Player_update p) - 400)"
    and "py (Player_update p) \<le> min cam (py (Player_update p) - 400) + 650"
  shows "Game_update (meadowGame p cam) =
    meadowGame (Player_update p) (min cam (py (Player_update p) - 400))"
proof -
  let ?p = "Player_update p" and ?c = "min cam (py (Player_update p) - 400)"
  let ?g = "meadowGame ?p ?c"
  have dead: "\<not> dead ?p"
    using assms(1) by (simp add: Player_update_def Let_def)
  have gy: "gridY ?p = gridY p"
    by (simp add: Player_update_def Let_def)
  have cam: "updateCamera (meadowGame ?p cam) = ?g"
    by (auto simp: updateCamera_def meadowGame_def Let_def game_consts min_def)
  have lns: "(case updateLanes (lanes ?g) (tape ?g) of (ls, t) \<Rightarrow> ?g\<lparr>lanes := ls, tape := t\<rparr>) = ?g"
    using updateLanes_grass [OF meadow_grass] by (simp add: meadowGame_def)
  have prog: "updateProgress ?g = ?g"
    using assms(2) gy by (simp add: updateProgress_def meadowGame_def)
  have gen: "generateNewLanes ?g = ?g"
    using meadow_generate [OF assms(3)]
    by (simp add: generateNewLanes_def meadowGame_def meadow_nonempty meadow_minimum)
  have cln: "cleanupOldLanes ?g = ?g"
    using meadow_cleanup [OF assms(3)]
    by (simp add: cleanupOldLanes_def meadowGame_def game_consts)
  have col: "checkCollisions ?g = ?g"
    by (rule checkCollisions_grass) (simp add: meadowGame_def meadow_grass)
  have par: "updateParticles ?g = ?g"
    by (simp add: updateParticles_def meadowGame_def)
  have dz: "checkDeathZone ?g = ?g"
    using assms(4) by (simp add: checkDeathZone_def meadowGame_def game_consts)
  have hd: "handleDeath ?g = ?g"
    using dead by (simp add: handleDeath_def meadowGame_def)
  have "Game_update (meadowGame p cam) =
      handleDeath (checkDeathZone (updateParticles (checkCollisions (cleanupOldLanes
        (generateNewLanes (updateProgress
          (case updateLanes (lanes (updateCamera (meadowGame ?p cam)))
                  (tape (updateCamera (meadowGame ?p cam))) of
             (ls, t) \<Rightarrow> (updateCamera (meadowGame ?p cam))\<lparr>lanes := ls, tape := t\<rparr>)))))))"
    by (simp add: Game_update_def Let_def meadowGame_def)
  then show ?thesis
    by (simp only: cam lns prog gen cln col par dz hd)
qed

lemma meadow_keyUp:
  "onKeyDown K_UP (meadowGame p cam) = meadowGame (Player_move 0 (-1) p) cam"
  by (simp add: onKeyDown_def movePlayer_def meadowGame_def)

lemma meadowGame_sel:
  "score (meadowGame p cam) = 0" "player (meadowGame p cam) = p"
  "bestProgress (meadowGame p cam) = 0" "cameraY (meadowGame p cam) = cam"
  by (simp_all add: meadowGame_def)

lemma pressSpace:
  "onKeyDown K_SPACE (Game noFile zeroTape) = meadowGame (Player 400 500) 0"
  using firstLife_meadow by (simp add: firstLife_def)

lemmas hop_eval =
  meadow_keyUp meadow_update meadowGame_sel Player_move_def Player_update_def Player_def
  game_consts Let_def

lemma hop1:
  "run (hopUp @ rest) (meadowGame (Player 400 500) 0) =
   run rest (meadowGame ((Player 400 500)\<lparr>px := 425, py := 475, gridY := 9, targetX := 425, targetY := 475\<rparr>) 0)"
  by (simp add: hopUp_def hop_eval)

lemma hop2:
  "run (hopUp @ rest) (meadowGame ((Player 400 500)\<lparr>px := 425, py := 475, gridY := 9, targetX := 425, targetY := 475\<rparr>) 0) =
   run rest (meadowGame ((Player 400 500)\<lparr>px := 425, py := 425, gridY := 8, targetX := 425, targetY := 425\<rparr>) 0)"
  by (simp add: hopUp_def hop_eval)

lemma hop3:
  "run (hopUp @ rest) (meadowGame ((Player 400 500)\<lparr>px := 425, py := 425, gridY := 8, targetX := 425, targetY := 425\<rparr>) 0) =
   run rest (meadowGame ((Player 400 500)\<lparr>px := 425, py := 375, gridY := 7, targetX := 425, targetY := 375\<rparr>) (-25))"
  by (simp add: hopUp_def hop_eval)

lemma hop4:
  "run (hopUp @ rest) (meadowGame ((Player 400 500)\<lparr>px := 425, py := 375, gridY := 7, targetX := 425, targetY := 375\<rparr>) (-25)) =
   run rest (meadowGame ((Player 400 500)\<lparr>px := 425, py := 325, gridY := 6, targetX := 425, targetY := 325\<rparr>) (-75))"
  by (simp add: hopUp_def hop_eval)

lemma hop5:
  "run (hopUp @ rest) (meadowGame ((Player 400 500)\<lparr>px := 425, py := 325, gridY := 6, targetX := 425, targetY := 325\<rparr>) (-75)) =
   run rest (meadowGame ((Player 400 500)\<lparr>px := 425, py := 275, gridY := 5, targetX := 425, targetY := 275\<rparr>) (-125))"
  by (simp add: hopUp_def hop_eval)

subsection \<open>The session on water\<close>

lemmas wet_defs =
  wetGame_def wetField_def pondAt_def flowerBedAt_def waterAt_def grassAt_def meadowGame_def
  constTape_def

lemma wetGame_start:
  "onKeyDown K_SPACE (Game noFile (constTape (9 / 10))) = wetGame 0 (Player 400 500)"
  by (simp add: wet_defs eval cong: let_weak_cong)

lemma wetGame_update: "Game_update (wetGame 0 (Player 400 500)) = wetGame 1 (Player 400 500)"
  by (simp add: wet_defs eval cong: let_weak_cong)

lemma wetGame_keyUp: "onKeyDown K_UP (wetGame k p) = wetGame k (Player_move 0 (-1) p)"
  by (simp add: wetGame_def meadowGame_def onKeyDown_def movePlayer_def)

lemma hopIntoWater_wetGame: "hopIntoWater = wetGame 1 (Player_move 0 (-1) (Player 400 500))"
  by (simp add: hopIntoWater_def wetGame_start wetGame_update wetGame_keyUp)

subsection \<open>Forward generation above three road lanes\<close>


section \<open>The claims\<close>

subsection \<open>Collision resolution\<close>




text \<open>
  C2 on the code. In a session whose lanes above the three grass lanes are water, the
  player presses \<^verbatim>\<open>up\<close>. The move is accepted, so the update frame starts with
  \<open>moving\<close> true and the player alive; the animation carries y from 500 to 492.5, into the
  row of the water lane at 450 that has no log yet. When \<^verbatim>\<open>update\<close> calls
  \<^verbatim>\<open>checkCollisions\<close> the player is still moving and alive, and the call drowns the
  player: after the frame \<open>moving\<close> and \<open>dead\<close> are both true and the 20 death particles are
  there.
\<close>

theorem drowned_while_moving:
  "validTape (constTape (9 / 10)) \<and> reachable hopIntoWater \<and>
   playing hopIntoWater \<and> \<not> gameOver hopIntoWater \<and>
   moving (player hopIntoWater) \<and> \<not> dead (player hopIntoWater) \<and>
   particles hopIntoWater = [] \<and>
   moving (player (beforeCollisions hopIntoWater)) \<and>
   \<not> dead (player (beforeCollisions hopIntoWater)) \<and>
   dead (player (checkCollisions (beforeCollisions hopIntoWater))) \<and>
   moving (player (Game_update hopIntoWater)) \<and>
   py (player (Game_update hopIntoWater)) = 985 / 2 \<and>
   dead (player (Game_update hopIntoWater)) \<and>
   length (particles (Game_update hopIntoWater)) = 20"
proof -
  have "reachable hopIntoWater"
    unfolding hopIntoWater_def
    by (intro reachable.events reachable.update reachable.start)
  moreover have "playing hopIntoWater \<and> \<not> gameOver hopIntoWater \<and>
      moving (player hopIntoWater) \<and> \<not> dead (player hopIntoWater) \<and>
      particles hopIntoWater = []"
    by (simp add: hopIntoWater_wetGame wetGame_def meadowGame_def Player_move_def Player_def
        Let_def)
  moreover have "moving (player (beforeCollisions hopIntoWater)) \<and>
      \<not> dead (player (beforeCollisions hopIntoWater)) \<and>
      dead (player (checkCollisions (beforeCollisions hopIntoWater)))"
    by (simp add: hopIntoWater_wetGame beforeCollisions_def beforeProgress_def wet_defs eval
        cong: let_weak_cong)
  moreover have "moving (player (Game_update hopIntoWater)) \<and>
      py (player (Game_update hopIntoWater)) = 985 / 2 \<and>
      dead (player (Game_update hopIntoWater)) \<and>
      length (particles (Game_update hopIntoWater)) = 20"
    by (simp add: hopIntoWater_wetGame wet_defs eval cong: let_weak_cong)
  ultimately show ?thesis by (simp add: validTape_const)
qed

theorem drowned_while_moving_witness:
  "moving (player hopIntoWater) \<and> dead (player (Game_update hopIntoWater))"
  using drowned_while_moving by simp

subsection \<open>Progress and score\<close>

text \<open>
  C3. The scenario on the code: a fresh session on a field without obstacles (the tape of
  zeros draws grass lanes only), left the start screen with SPACE, then five \<^verbatim>\<open>up\<close> key
  presses, each followed by the frames its hop takes. All five moves are accepted (the
  player is on row 5, five rows above the spawn row 10) and the player is alive, but the
  score is 0 and not 50: \<open>bestProgress\<close> starts at 0 and only a row above row 0 lowers it.
\<close>

theorem five_hops_score_zero:
  "validTape zeroTape \<and>
   gridY (player (run fiveHops (Game noFile zeroTape))) = 5 \<and>
   \<not> dead (player (run fiveHops (Game noFile zeroTape))) \<and>
   bestProgress (run fiveHops (Game noFile zeroTape)) = 0 \<and>
   score (run fiveHops (Game noFile zeroTape)) = 0"
proof -
  have "run fiveHops (Game noFile zeroTape) =
      run (hopUp @ hopUp @ hopUp @ hopUp @ hopUp @ []) (meadowGame (Player 400 500) 0)"
    by (simp add: fiveHops_def pressSpace hop_eval)
  also have "\<dots> = meadowGame ((Player 400 500)\<lparr>px := 425, py := 275, gridY := 5, targetX := 425, targetY := 275\<rparr>) (-125)"
    by (simp only: hop1 hop2 hop3 hop4 hop5 run.simps)
  finally show ?thesis
    by (simp add: meadowGame_sel Player_def validTape_def zeroTape_def)
qed

theorem five_hops_score_zero_witness:
  "score (run fiveHops (Game noFile zeroTape)) < 5 * 10"
  using five_hops_score_zero by simp

text \<open>
  C5. In every state of a session the score is 10 times the absolute value of
  \<open>bestProgress\<close>, so it is a function of the best progress alone. An update frame never
  increases \<open>bestProgress\<close> and never decreases the score, and the key presses of a life
  change neither.
\<close>

theorem score_is_ten_times_bestProgress:
  assumes "reachable g"
  shows "score g = 10 * \<bar>bestProgress g\<bar> \<and>
    bestProgress (Game_update g) \<le> bestProgress g \<and>
    score g \<le> score (Game_update g) \<and>
    (\<not> startScreen g \<and> \<not> gameOver g \<longrightarrow>
       bestProgress (snd (handleEvents evs g)) = bestProgress g \<and>
       score (snd (handleEvents evs g)) = score g)"
  using reachable_inv [OF assms] Game_update_best [of g] Game_update_inv [of g]
    handleEvents_life [of g evs]
  by simp

theorem score_is_ten_times_bestProgress_witness:
  "reachable firstLife \<and> \<not> startScreen firstLife \<and> \<not> gameOver firstLife \<and>
   score firstLife = 10 * \<bar>bestProgress firstLife\<bar> \<and>
   bestProgress (Game_update firstLife) \<le> bestProgress firstLife \<and>
   score firstLife \<le> score (Game_update firstLife) \<and>
   score (snd (handleEvents [KEYDOWN K_UP] firstLife)) = score firstLife"
proof -
  have r: "reachable firstLife"
    unfolding firstLife_def by (rule reachable.events) (rule reachable.start)
  have l: "\<not> startScreen firstLife \<and> \<not> gameOver firstLife"
    by (simp add: firstLife_def onKeyDown_def Game_def restart_def keeps)
  show ?thesis
    using r l score_is_ten_times_bestProgress [OF r, of "[KEYDOWN K_UP]"] by simp
qed

subsection \<open>Lane generation\<close>




subsection \<open>Camera\<close>

text \<open>
  C6. \<^verbatim>\<open>updateCamera\<close> stores the target, the player's y minus two thirds of the screen
  height (400), only when the target is strictly smaller than \<open>cameraY\<close>, and changes
  nothing otherwise. \<open>cameraY\<close> does not increase in any update frame, hence not over any
  number of them, and the key presses of a life (neither start screen nor game over, so
  no restart) leave it as it is.
\<close>

theorem cameraY_never_increases:
  "updateCamera g =
     (if py (player g) - 400 < cameraY g then g\<lparr>cameraY := py (player g) - 400\<rparr> else g) \<and>
   cameraY (Game_update g) \<le> cameraY g \<and>
   cameraY ((Game_update ^^ n) g) \<le> cameraY g \<and>
   (\<not> startScreen g \<and> \<not> gameOver g \<longrightarrow> cameraY (snd (handleEvents evs g)) = cameraY g)"
  using Game_update_cameraY [of g] updates_cameraY [of n g] handleEvents_life [of g evs]
  by (simp add: updateCamera_def Let_def game_consts)

theorem cameraY_never_increases_witness:
  "cameraY ((Game_update ^^ 3) firstLife) \<le> cameraY firstLife \<and>
   \<not> startScreen firstLife \<and> \<not> gameOver firstLife \<and>
   cameraY (snd (handleEvents [KEYDOWN K_UP] firstLife)) = cameraY firstLife"
  using cameraY_never_increases [of firstLife 3 "[KEYDOWN K_UP]"]
  by (simp add: firstLife_def onKeyDown_def Game_def restart_def keeps)

subsection \<open>Player movement\<close>

text \<open>
  C7. After an accepted \<^verbatim>\<open>move(dx, dy)\<close>, whatever the step and the column before it,
  \<open>gridX\<close> lies in \<open>[0, SCREEN_WIDTH // GRID_SIZE - 1] = [0, 15]\<close>; and from a player whose
  column is in that range (the spawned player's is 8), every sequence of \<^verbatim>\<open>move\<close> and
  \<^verbatim>\<open>update\<close> calls keeps it there.
\<close>

theorem gridX_within_columns:
  "SCREEN_WIDTH div GRID_SIZE - 1 = 15 \<and>
   (\<not> moving p \<and> \<not> dead p \<and> \<not> moveCooldown p > 0 \<longrightarrow>
      0 \<le> gridX (Player_move dx dy p) \<and>
      gridX (Player_move dx dy p) \<le> SCREEN_WIDTH div GRID_SIZE - 1) \<and>
   (0 \<le> gridX q \<and> gridX q \<le> 15 \<longrightarrow>
      0 \<le> gridX (playerCalls cs q) \<and> gridX (playerCalls cs q) \<le> 15)"
proof (intro conjI impI)
  show "SCREEN_WIDTH div GRID_SIZE - 1 = 15"
    by (simp add: game_consts)
next
  assume "\<not> moving p \<and> \<not> dead p \<and> \<not> moveCooldown p > 0"
  then show "0 \<le> gridX (Player_move dx dy p)"
    and "gridX (Player_move dx dy p) \<le> SCREEN_WIDTH div GRID_SIZE - 1"
    by (simp_all add: Player_move_def Let_def game_consts)
next
  assume "0 \<le> gridX q \<and> gridX q \<le> 15"
  then have "0 \<le> gridX (playerCalls cs q) \<and> gridX (playerCalls cs q) \<le> 15"
  proof (induction cs q rule: playerCalls.induct)
    case (1 p)
    then show ?case by simp
  next
    case (2 dx dy cs p)
    then show ?case using Player_move_gridX [of p dx dy] by simp
  next
    case (3 cs p)
    then show ?case by (simp add: Player_update_gridX)
  qed
  then show "0 \<le> gridX (playerCalls cs q)" and "gridX (playerCalls cs q) \<le> 15"
    by simp_all
qed

theorem gridX_within_columns_witness:
  "gridX (Player_move 1 0 ((Player 400 500)\<lparr>gridX := 15\<rparr>)) = 15 \<and>
   gridX (Player 400 500) = 8 \<and>
   gridX (playerCalls [Move (-1) 0, Update, Move 1 0] (Player 400 500)) = 7"
proof -
  have a: "gridX (Player_move 1 0 ((Player 400 500)\<lparr>gridX := 15\<rparr>)) = 15"
    using gridX_within_columns [of "(Player 400 500)\<lparr>gridX := 15\<rparr>" 1 0 "Player 400 500" "[]"]
    by (simp add: Player_def Player_move_def game_consts)
  have b: "gridX (playerCalls [Move (-1) 0, Update, Move 1 0] (Player 400 500)) = 7"
    by (simp add: Player_def Player_move_def Player_update_def game_consts)
  show ?thesis using a b by (simp add: Player_def game_consts)
qed

text \<open>
  C8. A \<^verbatim>\<open>move(dx, dy)\<close> made while the player is animating (\<open>moving\<close>), is dead, or has a
  positive cooldown returns at once: the player after the call is the player before it,
  in every field.
\<close>

theorem move_rejected_is_noop:
  "moving p \<or> dead p \<or> moveCooldown p > 0 \<Longrightarrow> Player_move dx dy p = p"
  by (simp add: Player_move_def)

theorem move_rejected_is_noop_witness:
  "Player_move 0 (-1) ((Player 400 500)\<lparr>moving := True\<rparr>) = (Player 400 500)\<lparr>moving := True\<rparr>
   \<and> Player_move 1 0 ((Player 400 500)\<lparr>dead := True\<rparr>) = (Player 400 500)\<lparr>dead := True\<rparr>
   \<and> Player_move 0 1 ((Player 400 500)\<lparr>moveCooldown := 3\<rparr>) = (Player 400 500)\<lparr>moveCooldown := 3\<rparr>"
  using move_rejected_is_noop [of "(Player 400 500)\<lparr>moving := True\<rparr>" 0 "-1"]
    move_rejected_is_noop [of "(Player 400 500)\<lparr>dead := True\<rparr>" 1 0]
    move_rejected_is_noop [of "(Player 400 500)\<lparr>moveCooldown := 3\<rparr>" 0 1]
  by simp

subsection \<open>The high score\<close>

text \<open>
  C9. When the write succeeds, loading after saving a high score \<open>n\<close> yields \<open>n\<close>, for every
  integer \<open>n\<close> (a failed write is swallowed and leaves the file as it was). Loading yields
  0 when the file cannot be opened or read and when its text does not parse as an integer.
  \<^verbatim>\<open>endGame\<close> is the one caller of \<^verbatim>\<open>saveHighScore\<close>: a session started on the file it
  wrote begins with the score as its high score.
\<close>

theorem highScore_roundtrip:
  "(writable d \<longrightarrow> loadHighScore (saveHighScore n d) = n) \<and>
   (fileText d = None \<longrightarrow> loadHighScore d = 0) \<and>
   (fileText d = Some s \<and> pyInt s = None \<longrightarrow> loadHighScore d = 0) \<and>
   (writable (hsFile g) \<and> highScore g < score g \<longrightarrow>
      highScore (Game (hsFile (endGame g)) t) = score g)"
  by (simp add: loadHighScore_def saveHighScore_def pyInt_str endGame_def Game_def
      initializeLanes_keeps Let_def)

theorem highScore_roundtrip_witness:
  "writable noFile \<and> loadHighScore (saveHighScore (-1205) noFile) = -1205 \<and>
   fileText noFile = None \<and> loadHighScore noFile = 0 \<and>
   pyInt ''12a'' = None \<and> loadHighScore \<lparr>fileText = Some ''12a'', writable = False\<rparr> = 0 \<and>
   pyInt [CHR 0x1C, CHR ''1'', CHR ''2''] = None \<and>
   loadHighScore \<lparr>fileText = Some [CHR 0x1C, CHR ''1'', CHR ''2''], writable = False\<rparr> = 0 \<and>
   highScore dying < score dying \<and> highScore (Game (hsFile (endGame dying)) zeroTape) = 30"
proof -
  have a: "pyInt ''12a'' = None"
    by (simp add: pyInt_def strip_def isSpace_def pyNat_def isDigit_def digitVal_def)
  have c: "pyInt [CHR 0x1C, CHR ''1'', CHR ''2''] = None"
    by (simp add: pyInt_def strip_def isSpace_def pyNat_def isDigit_def digitVal_def)
  have b: "writable (hsFile dying) \<and> highScore dying < score dying \<and> score dying = 30"
    by (simp add: dying_def meadowGame_def noFile_def)
  show ?thesis
    using a b c highScore_roundtrip [of noFile "-1205" "''12a''" dying zeroTape]
      highScore_roundtrip [of "\<lparr>fileText = Some ''12a'', writable = False\<rparr>" 0 "''12a''" dying zeroTape]
      highScore_roundtrip [of "\<lparr>fileText = Some [CHR 0x1C, CHR ''1'', CHR ''2''], writable = False\<rparr>"
        0 "[CHR 0x1C, CHR ''1'', CHR ''2'']" dying zeroTape]
    by (simp add: noFile_def)
qed

text \<open>
  C10. \<^verbatim>\<open>restart()\<close> keeps \<open>highScore\<close> and sets the other session fields anew: the score,
  the best progress and the camera to 0, the difficulty to 1, a fresh player at (400, 500),
  no particles, the death timer to 0, the state tags to playing, and 23 freshly drawn lanes
  that do not depend on the lanes before. (It also leaves \<open>flashTimer\<close> alone, which nothing
  assigns after construction, and the high-score file.) No key press changes \<open>highScore\<close>;
  an update changes it only in the frame that enters game over, when the score exceeds it,
  and then to the score.
\<close>

theorem restart_keeps_highScore:
  "highScore (restart g) = highScore g \<and>
   flashTimer (restart g) = flashTimer g \<and> hsFile (restart g) = hsFile g \<and>
   score (restart g) = 0 \<and> bestProgress (restart g) = 0 \<and> cameraY (restart g) = 0 \<and>
   difficultyMultiplier (restart g) = 1 \<and>
   player (restart g) = Player 400 500 \<and> particles (restart g) = [] \<and>
   deathAnimationTimer (restart g) = 0 \<and>
   playing (restart g) \<and> \<not> gameOver (restart g) \<and> \<not> startScreen (restart g) \<and>
   lanes (restart g) =
     fst (initRandomLanes [0..<20] 1 (fst (initGrassLanes [0..<3] [] (tape g)))
            (snd (initGrassLanes [0..<3] [] (tape g)))) \<and>
   length (lanes (restart g)) = 23 \<and>
   highScore (snd (handleEvents evs g)) = highScore g \<and>
   (highScore (Game_update g) \<noteq> highScore g \<longrightarrow>
      playing g \<and> \<not> gameOver g \<and> gameOver (Game_update g) \<and>
      highScore g < score (Game_update g) \<and> highScore (Game_update g) = score (Game_update g))"
  using Game_update_highScore [of g] handleEvents_highScore [of evs g]
  by (auto simp: restart_def keeps initializeLanes_lanes initRandomLanes_length
      initGrassLanes_length game_consts)

theorem restart_keeps_highScore_witness:
  "highScore dying = 0 \<and> highScore (restart dying) = 0 \<and>
   highScore (Game_update dying) = 30 \<and> score (Game_update dying) = 30 \<and>
   \<not> gameOver dying \<and> gameOver (Game_update dying)"
proof -
  have "highScore (Game_update dying) = 30"
    by (simp add: dying_def meadowGame_def meadow_def grassAt_def eval cong: let_weak_cong)
  moreover have "highScore dying = 0"
    by (simp add: dying_def meadowGame_def)
  ultimately show ?thesis
    using restart_keeps_highScore [of dying "[]"] by simp
qed

end
